theory Spec2Isabelle
  imports Complex_Main "HOL-Library.Sublist"
begin

section \<open>Data model of the employer verifier\<close>

text \<open>
  The values \<^verbatim>\<open>JSON.parse\<close> returns. An object is the list of its own enumerable
  properties in enumeration order. A number read from JSON text is a finite double,
  hence a rational; the orchestrator never inspects one.
\<close>

datatype json =
    JNull
  | JBool bool
  | JNum rat
  | JStr string
  | JArr "json list"
  | JObj "(string \<times> json) list"

text \<open>\<^verbatim>\<open>type VerificationStatus = 'idle' | 'verifying' | 'valid' | 'invalid' | 'revoked' | 'error'\<close>\<close>

datatype VerificationStatus = Idle | Verifying | Valid | Invalid | Revoked | Error

text \<open>The \<^verbatim>\<open>status\<close> field of a step: \<^verbatim>\<open>'pending' | 'success' | 'failure' | 'warning'\<close>.\<close>

datatype StepStatus = Pending | Success | Failure | Warning

text \<open>
  \<^verbatim>\<open>interface VerificationStep { name; status; message }\<close>. The field \<^verbatim>\<open>status\<close> is
  \<open>step_status\<close> here; \<open>status\<close> is the component's state variable.
\<close>

record VerificationStep =
  name :: string
  step_status :: StepStatus
  message :: string

text \<open>
  What \<^verbatim>\<open>verifyVCSignature\<close> returns, as the orchestrator reads it: \<^verbatim>\<open>valid\<close>,
  \<^verbatim>\<open>reason\<close> and the optional \<^verbatim>\<open>recoveredAddress\<close> (\<open>None\<close> is \<^verbatim>\<open>undefined\<close>).
\<close>

record SigVerification =
  valid :: bool
  reason :: string
  recoveredAddress :: "string option"

text \<open>
  A thrown value or a promise rejection. The source reads it as \<^verbatim>\<open>(e as Error).message\<close>,
  so it is an \<^verbatim>\<open>Error\<close> object carrying its message.
\<close>

datatype js_error = JsError (err_message: string)

subsection \<open>The collaborators of the orchestrator\<close>

text \<open>
  \<^verbatim>\<open>verifyVCSignature\<close>, \<^verbatim>\<open>canonicalizeVC\<close>, \<^verbatim>\<open>computeCredentialHash\<close> (module
  \<^verbatim>\<open>../utils/crypto\<close>) and \<^verbatim>\<open>isRevoked\<close>, \<^verbatim>\<open>getController\<close> (module
  \<^verbatim>\<open>../services/contract\<close>) are imported by the component and are parameters here, as are
  the runtime's \<^verbatim>\<open>JSON.parse\<close> and \<^verbatim>\<open>String.prototype.toLowerCase\<close>. Each call either
  returns (\<open>Inr\<close>) or throws, respectively rejects (\<open>Inl\<close>). \<open>propertyOfNull\<close> and
  \<open>destructureNull\<close> are the \<^verbatim>\<open>TypeError\<close>s the runtime raises when a property of
  \<^verbatim>\<open>null\<close> is read and when \<^verbatim>\<open>null\<close> is destructured; their text is the engine's.
\<close>

record env =
  JSON_parse :: "string \<Rightarrow> js_error + json"
  verifyVCSignature :: "json \<Rightarrow> js_error + SigVerification"
  getController :: "json option \<Rightarrow> js_error + string"
  canonicalizeVC :: "json \<Rightarrow> js_error + string"
  computeCredentialHash :: "string \<Rightarrow> js_error + string"
  isRevoked :: "string \<Rightarrow> js_error + bool"
  toLowerCase :: "string \<Rightarrow> string"
  propertyOfNull :: js_error
  destructureNull :: js_error

subsection \<open>Component state, step objects and the event log\<close>

type_synonym addr = nat

text \<open>The calls the orchestrator makes to its collaborators, with their arguments.\<close>

datatype call =
    CallVerifyVCSignature json
  | CallGetController "json option"
  | CallCanonicalizeVC json
  | CallComputeCredentialHash string
  | CallIsRevoked string

text \<open>
  What a run does to the outside, in order. \<open>SetSteps as ss\<close> publishes the array of step
  objects \<open>as\<close>, whose contents at that moment are \<open>ss\<close>.
\<close>

datatype event =
    SetIsLoading bool
  | SetStatus VerificationStatus
  | SetVc json
  | SetVcInput string
  | SetSteps "addr list" "VerificationStep list"
  | Called call

text \<open>
  The component's state (\<^verbatim>\<open>useState\<close>: \<^verbatim>\<open>vcInput\<close>, \<^verbatim>\<open>vc\<close>, \<^verbatim>\<open>status\<close>, \<^verbatim>\<open>steps\<close>,
  \<^verbatim>\<open>isLoading\<close>), the store of step objects, and the log of events. A state update is
  applied when it is made. \<^verbatim>\<open>vc\<close> is \<^verbatim>\<open>null\<close> (\<open>JNull\<close>) until a credential is
  parsed. \<^verbatim>\<open>steps\<close> holds references: \<^verbatim>\<open>setSteps([...verificationSteps])\<close> copies the array, not the objects in it,
  so a later assignment to \<^verbatim>\<open>controllerCheckStep.status\<close> writes the object the published
  array refers to.
\<close>

record world =
  vcInput :: string
  vc :: json
  status :: VerificationStatus
  steps :: "addr list"
  isLoading :: bool
  heap :: "VerificationStep list"
  log :: "event list"

definition deref :: "world \<Rightarrow> addr \<Rightarrow> VerificationStep" where
  "deref w a = heap w ! a"

text \<open>The step list as the component renders it.\<close>

definition rendered_steps :: "world \<Rightarrow> VerificationStep list" where
  "rendered_steps w = map (deref w) (steps w)"

definition setIsLoading :: "bool \<Rightarrow> world \<Rightarrow> world" where
  "setIsLoading b w = w\<lparr>isLoading := b, log := log w @ [SetIsLoading b]\<rparr>"

definition setStatus :: "VerificationStatus \<Rightarrow> world \<Rightarrow> world" where
  "setStatus s w = w\<lparr>status := s, log := log w @ [SetStatus s]\<rparr>"

definition setVc :: "json \<Rightarrow> world \<Rightarrow> world" where
  "setVc v w = w\<lparr>vc := v, log := log w @ [SetVc v]\<rparr>"

definition setVcInput :: "string \<Rightarrow> world \<Rightarrow> world" where
  "setVcInput t w = w\<lparr>vcInput := t, log := log w @ [SetVcInput t]\<rparr>"

definition setSteps :: "addr list \<Rightarrow> world \<Rightarrow> world" where
  "setSteps as w = w\<lparr>steps := as, log := log w @ [SetSteps as (map (deref w) as)]\<rparr>"

definition called :: "call \<Rightarrow> world \<Rightarrow> world" where
  "called c w = w\<lparr>log := log w @ [Called c]\<rparr>"

text \<open>
  An object literal: a fresh step object; its reference is returned. References are made
  here only, so every reference a run holds lies within the store.
\<close>

definition new_step :: "VerificationStep \<Rightarrow> world \<Rightarrow> addr \<times> world" where
  "new_step s w = (length (heap w), w\<lparr>heap := heap w @ [s]\<rparr>)"

text \<open>The two assignments \<^verbatim>\<open>step.status = st; step.message = m\<close> to the object at \<open>a\<close>.\<close>

definition assign_step :: "addr \<Rightarrow> StepStatus \<Rightarrow> string \<Rightarrow> world \<Rightarrow> world" where
  "assign_step a st m w =
     w\<lparr>heap := (heap w)[a := (deref w a)\<lparr>step_status := st, message := m\<rparr>]\<rparr>"

section \<open>Language primitives the run uses\<close>

text \<open>Decimal numeral of an array index, the property key of an element.\<close>

fun digit :: "nat \<Rightarrow> char" where
  "digit n = char_of (48 + n)"

fun decimal :: "nat \<Rightarrow> string" where
  "decimal n = (if n < 10 then [digit n] else decimal (n div 10) @ [digit (n mod 10)])"

declare decimal.simps [simp del]

definition indexed :: "json list \<Rightarrow> (string \<times> json) list" where
  "indexed xs = zip (map decimal [0..<length xs]) xs"

text \<open>
  \<^verbatim>\<open>parsedVc.issuer\<close>: reading a property of \<^verbatim>\<open>null\<close> throws; an object yields the
  property's value or \<^verbatim>\<open>undefined\<close> (\<open>None\<close>); any other JSON value has no such property.
\<close>

fun get_issuer :: "env \<Rightarrow> json \<Rightarrow> js_error + json option" where
  "get_issuer env JNull = Inl (propertyOfNull env)"
| "get_issuer env (JObj kvs) = Inr (map_of kvs ''issuer'')"
| "get_issuer env v = Inr None"

text \<open>
  \<^verbatim>\<open>const { proof, ...vcWithoutProof } = parsedVc\<close>: the rest object holds every own
  enumerable property but \<^verbatim>\<open>proof\<close>, in order. Destructuring \<^verbatim>\<open>null\<close> throws; an array
  and a string contribute their indexed elements, a number and a boolean nothing.
\<close>

fun withoutProof :: "env \<Rightarrow> json \<Rightarrow> js_error + json" where
  "withoutProof env JNull = Inl (destructureNull env)"
| "withoutProof env (JObj kvs) = Inr (JObj (filter (\<lambda>kv. fst kv \<noteq> ''proof'') kvs))"
| "withoutProof env (JArr xs) = Inr (JObj (indexed xs))"
| "withoutProof env (JStr s) = Inr (JObj (indexed (map (\<lambda>c. JStr [c]) s)))"
| "withoutProof env v = Inr (JObj [])"

text \<open>A template literal renders \<^verbatim>\<open>undefined\<close> as the word.\<close>

definition show_optional :: "string option \<Rightarrow> string" where
  "show_optional s = (case s of None \<Rightarrow> ''undefined'' | Some t \<Rightarrow> t)"

section \<open>The verification run\<close>

text \<open>
  A run is suspended at each \<^verbatim>\<open>await\<close>. A suspended run holds its local variables
  (\<^verbatim>\<open>parsedVc\<close>, \<^verbatim>\<open>sigVerification\<close>, the array \<^verbatim>\<open>verificationSteps\<close>, the reference of
  the step it will update) and the settled result of the call it waits for. \<open>Crashed e\<close>
  is a run that ended by an uncaught exception.
\<close>

datatype run =
    AwaitController json SigVerification "addr list" addr "js_error + string"
  | AwaitRevocation "addr list" addr "js_error + bool"
  | Finished
  | Crashed js_error

text \<open>The object literals of lines 65 to 69, 79 and 100.\<close>

definition signature_recorded :: "SigVerification \<Rightarrow> VerificationStep" where
  "signature_recorded sigVerification =
     \<lparr>name = ''Cryptographic Signature'',
      step_status = (if valid sigVerification then Success else Failure),
      message = reason sigVerification\<rparr>"

definition controller_pending :: VerificationStep where
  "controller_pending =
     \<lparr>name = ''Issuer DID Control'', step_status = Pending,
      message = ''Checking if issuer controls DID on-chain...''\<rparr>"

definition revocation_pending :: VerificationStep where
  "revocation_pending =
     \<lparr>name = ''Revocation Status'', step_status = Pending,
      message = ''Checking on-chain revocation list...''\<rparr>"

text \<open>
  Lines 104 to 128, from the settled revocation lookup on. \<open>r\<close> is what the \<^verbatim>\<open>try\<close>
  block produced: the awaited value of \<^verbatim>\<open>isRevoked(hash)\<close>, or the exception caught from
  destructuring, \<^verbatim>\<open>canonicalizeVC\<close>, \<^verbatim>\<open>computeCredentialHash\<close> or the lookup.
\<close>

definition after_revocation ::
  "addr list \<Rightarrow> addr \<Rightarrow> js_error + bool \<Rightarrow> world \<Rightarrow> world \<times> run" where
  "after_revocation verificationSteps revocationStep r w =
     (case r of
        Inr revoked \<Rightarrow>
          if revoked then
            (let w1 = assign_step revocationStep Failure
                        ''This credential has been revoked by the issuer.'' w;
                 w2 = setSteps verificationSteps w1;
                 w3 = setStatus Revoked w2;
                 w4 = setIsLoading False w3
             in (w4, Finished))
          else
            (let w1 = assign_step revocationStep Success
                        ''Credential is not on the revocation list.'' w;
                 w2 = setSteps verificationSteps w1;
                 w3 = setStatus Valid w2;
                 w4 = setIsLoading False w3
             in (w4, Finished))
      | Inl e \<Rightarrow>
          (let w1 = assign_step revocationStep Warning
                      (''Could not check revocation status: '' @ err_message e) w;
               w2 = setSteps verificationSteps w1;
               w3 = setStatus Valid w2;
               w4 = setIsLoading False w3
           in (w4, Finished)))"

text \<open>
  Lines 104 to 108, the head of the \<^verbatim>\<open>try\<close> block of the revocation step: strip
  \<^verbatim>\<open>proof\<close>, canonicalize, hash, call \<^verbatim>\<open>isRevoked\<close> and suspend on its promise. An
  exception on the way is caught at once, without suspending.
\<close>

definition revocation_lookup ::
  "env \<Rightarrow> json \<Rightarrow> addr list \<Rightarrow> addr \<Rightarrow> world \<Rightarrow> world \<times> run" where
  "revocation_lookup env parsedVc verificationSteps revocationStep w =
     (case withoutProof env parsedVc of
        Inl e \<Rightarrow> after_revocation verificationSteps revocationStep (Inl e) w
      | Inr vcWithoutProof \<Rightarrow>
          (let w1 = called (CallCanonicalizeVC vcWithoutProof) w in
           case canonicalizeVC env vcWithoutProof of
             Inl e \<Rightarrow> after_revocation verificationSteps revocationStep (Inl e) w1
           | Inr canonicalVC \<Rightarrow>
               (let w2 = called (CallComputeCredentialHash canonicalVC) w1 in
                case computeCredentialHash env canonicalVC of
                  Inl e \<Rightarrow> after_revocation verificationSteps revocationStep (Inl e) w2
                | Inr hash \<Rightarrow>
                    (called (CallIsRevoked hash) w2,
                     AwaitRevocation verificationSteps revocationStep (isRevoked env hash)))))"

text \<open>
  Lines 85 to 97, from the settled controller resolution on. \<open>r\<close> is the awaited value of
  \<^verbatim>\<open>getController(parsedVc.issuer)\<close> or the exception caught. The comparison is
  \<^verbatim>\<open>onChainController.toLowerCase() === signerAddress?.toLowerCase()\<close>: with no recovered
  address the right side is \<^verbatim>\<open>undefined\<close>, equal to no string.
\<close>

definition controller_settled ::
  "env \<Rightarrow> SigVerification \<Rightarrow> addr list \<Rightarrow> addr \<Rightarrow> js_error + string \<Rightarrow> world \<Rightarrow> world" where
  "controller_settled env sigVerification verificationSteps controllerCheckStep r w =
     (let w1 =
            (case r of
               Inr onChainController \<Rightarrow>
                 (let signerAddress = recoveredAddress sigVerification in
                  if Some (toLowerCase env onChainController)
                       = map_option (toLowerCase env) signerAddress
                  then assign_step controllerCheckStep Success
                         (''On-chain controller ('' @ onChainController
                            @ '') matches the credential signer.'') w
                  else assign_step controllerCheckStep Warning
                         (''On-chain controller ('' @ onChainController
                            @ '') does not match signer ('' @ show_optional signerAddress
                            @ ''). Credential may be valid but issuer DID is not registered or controller has changed.'') w)
             | Inl e \<Rightarrow>
                 assign_step controllerCheckStep Warning
                   ''Could not verify issuer DID controller on-chain. The DID may not be registered.'' w)
      in setSteps verificationSteps w1)"

text \<open>
  Lines 85 to 108: the controller step is settled, the pending revocation step is pushed
  and published, and the revocation lookup starts.
\<close>

definition after_controller ::
  "env \<Rightarrow> json \<Rightarrow> SigVerification \<Rightarrow> addr list \<Rightarrow> addr \<Rightarrow> js_error + string \<Rightarrow> world
     \<Rightarrow> world \<times> run" where
  "after_controller env parsedVc sigVerification verificationSteps controllerCheckStep r w =
     (let w2 = controller_settled env sigVerification verificationSteps controllerCheckStep r w;
          (revocationStep, w3) = new_step revocation_pending w2;
          verificationSteps' = verificationSteps @ [revocationStep];
          w4 = setSteps verificationSteps' w3
      in revocation_lookup env parsedVc verificationSteps' revocationStep w4)"

text \<open>
  Lines 78 to 84: the pending controller step is pushed and published, \<^verbatim>\<open>parsedVc.issuer\<close>
  is read, \<^verbatim>\<open>getController\<close> is called and the run suspends on its promise. When reading
  the property throws, the \<^verbatim>\<open>catch\<close> block runs at once.
\<close>

definition controller_lookup ::
  "env \<Rightarrow> json \<Rightarrow> SigVerification \<Rightarrow> addr list \<Rightarrow> world \<Rightarrow> world \<times> run" where
  "controller_lookup env parsedVc sigVerification verificationSteps w =
     (let (controllerCheckStep, w1) = new_step controller_pending w;
          verificationSteps' = verificationSteps @ [controllerCheckStep];
          w2 = setSteps verificationSteps' w1
      in case get_issuer env parsedVc of
           Inl e \<Rightarrow>
             after_controller env parsedVc sigVerification verificationSteps'
               controllerCheckStep (Inl e) w2
         | Inr issuer \<Rightarrow>
             (called (CallGetController issuer) w2,
              AwaitController parsedVc sigVerification verificationSteps' controllerCheckStep
                (getController env issuer)))"

text \<open>
  Lines 61 to 76: the signature step. \<^verbatim>\<open>verifyVCSignature\<close> is called outside any
  \<^verbatim>\<open>try\<close>: when it throws, the run ends there.
\<close>

definition signature_step :: "env \<Rightarrow> json \<Rightarrow> world \<Rightarrow> world \<times> run" where
  "signature_step env parsedVc w =
     (let w1 = called (CallVerifyVCSignature parsedVc) w in
      case verifyVCSignature env parsedVc of
        Inl e \<Rightarrow> (w1, Crashed e)
      | Inr sigVerification \<Rightarrow>
          (let (sigStep, w2) = new_step (signature_recorded sigVerification) w1;
               verificationSteps = [sigStep];
               w3 = setSteps verificationSteps w2
           in if \<not> valid sigVerification
              then (setIsLoading False (setStatus Invalid w3), Finished)
              else controller_lookup env parsedVc sigVerification verificationSteps w3))"

text \<open>
  \<^verbatim>\<open>runVerification\<close>, from its call to its first suspension (or its end): lines 48 to 59,
  then the signature step.
\<close>

definition runVerification :: "env \<Rightarrow> world \<Rightarrow> world \<times> run" where
  "runVerification env w =
     (let w1 = setIsLoading True w;
          w2 = setStatus Verifying w1
      in case JSON_parse env (vcInput w) of
           Inl e \<Rightarrow>
             (let w3 = setStatus Error w2;
                  (parseStep, w4) =
                    new_step \<lparr>name = ''Parse JSON'', step_status = Failure,
                              message = ''Input is not valid JSON.''\<rparr> w3;
                  w5 = setSteps [parseStep] w4;
                  w6 = setIsLoading False w5
              in (w6, Finished))
         | Inr parsedVc \<Rightarrow> signature_step env parsedVc (setVc parsedVc w2))"

text \<open>A suspended run continues when the promise it awaits has settled.\<close>

fun resume :: "env \<Rightarrow> run \<Rightarrow> world \<Rightarrow> world \<times> run" where
  "resume env (AwaitController parsedVc sigVerification verificationSteps controllerCheckStep r) w =
     after_controller env parsedVc sigVerification verificationSteps controllerCheckStep r w"
| "resume env (AwaitRevocation verificationSteps revocationStep r) w =
     after_revocation verificationSteps revocationStep r w"
| "resume env Finished w = (w, Finished)"
| "resume env (Crashed e) w = (w, Crashed e)"

text \<open>The promise a run awaits settles, and the run continues to its next suspension.\<close>

fun settle :: "env \<Rightarrow> world \<times> run \<Rightarrow> world \<times> run" where
  "settle env (w, r) = resume env r w"

text \<open>
  A run that nothing interleaves with: \<^verbatim>\<open>runVerification\<close> and its continuations, one
  after the other. There are two \<^verbatim>\<open>await\<close>s, so two resumptions reach the end.
\<close>

definition run_alone :: "env \<Rightarrow> world \<Rightarrow> world \<times> run" where
  "run_alone env w = settle env (settle env (runVerification env w))"

text \<open>The events of an uninterrupted run started in \<open>w\<close>.\<close>

definition run_events :: "env \<Rightarrow> world \<Rightarrow> event list" where
  "run_events env w = drop (length (log w)) (log (fst (run_alone env w)))"

text \<open>The collaborator calls of an uninterrupted run, in order.\<close>

definition run_calls :: "env \<Rightarrow> world \<Rightarrow> call list" where
  "run_calls env w = [c. Called c \<leftarrow> run_events env w]"

text \<open>The arrays an uninterrupted run publishes, and their contents when published.\<close>

definition published_refs :: "env \<Rightarrow> world \<Rightarrow> addr list list" where
  "published_refs env w = [as. SetSteps as ss \<leftarrow> run_events env w]"

definition published_steps :: "env \<Rightarrow> world \<Rightarrow> VerificationStep list list" where
  "published_steps env w = [ss. SetSteps as ss \<leftarrow> run_events env w]"

definition final_snapshot :: "env \<Rightarrow> world \<Rightarrow> VerificationStep list" where
  "final_snapshot env w = (case rev (published_steps env w) of [] \<Rightarrow> [] | ss # _ \<Rightarrow> ss)"

text \<open>
  What the \<^verbatim>\<open>try\<close> block of the controller step settles to (line 84): the exception of
  reading \<^verbatim>\<open>parsedVc.issuer\<close>, or the settled \<^verbatim>\<open>getController\<close> promise.
\<close>

definition controller_try :: "env \<Rightarrow> json \<Rightarrow> js_error + string" where
  "controller_try env parsedVc =
     (case get_issuer env parsedVc of
        Inl e \<Rightarrow> Inl e
      | Inr issuer \<Rightarrow> getController env issuer)"

text \<open>
  What lines 105 to 108 settle to: the first exception among destructuring,
  \<^verbatim>\<open>canonicalizeVC\<close> and \<^verbatim>\<open>computeCredentialHash\<close>, or the settled \<^verbatim>\<open>isRevoked\<close>
  promise.
\<close>

definition revocation_try :: "env \<Rightarrow> json \<Rightarrow> js_error + bool" where
  "revocation_try env parsedVc =
     (case withoutProof env parsedVc of
        Inl e \<Rightarrow> Inl e
      | Inr vcWithoutProof \<Rightarrow>
          (case canonicalizeVC env vcWithoutProof of
             Inl e \<Rightarrow> Inl e
           | Inr canonicalVC \<Rightarrow>
               (case computeCredentialHash env canonicalVC of
                  Inl e \<Rightarrow> Inl e
                | Inr hash \<Rightarrow> isRevoked env hash)))"

text \<open>The calls these two blocks make on the way.\<close>

definition controller_calls :: "env \<Rightarrow> json \<Rightarrow> call list" where
  "controller_calls env parsedVc =
     (case get_issuer env parsedVc of
        Inl e \<Rightarrow> []
      | Inr issuer \<Rightarrow> [CallGetController issuer])"

definition revocation_calls :: "env \<Rightarrow> json \<Rightarrow> call list" where
  "revocation_calls env parsedVc =
     (case withoutProof env parsedVc of
        Inl e \<Rightarrow> []
      | Inr vcWithoutProof \<Rightarrow>
          CallCanonicalizeVC vcWithoutProof #
          (case canonicalizeVC env vcWithoutProof of
             Inl e \<Rightarrow> []
           | Inr canonicalVC \<Rightarrow>
               CallComputeCredentialHash canonicalVC #
               (case computeCredentialHash env canonicalVC of
                  Inl e \<Rightarrow> []
                | Inr hash \<Rightarrow> [CallIsRevoked hash])))"

text \<open>
  The controller step and the revocation step once settled: what lines 85 to 96 and lines
  110 to 124 assign to the pending object, given what the \<^verbatim>\<open>try\<close> block settled to.
\<close>

definition controller_recorded ::
  "env \<Rightarrow> SigVerification \<Rightarrow> js_error + string \<Rightarrow> VerificationStep" where
  "controller_recorded env sigVerification r =
     (case r of
        Inr onChainController \<Rightarrow>
          if Some (toLowerCase env onChainController)
               = map_option (toLowerCase env) (recoveredAddress sigVerification)
          then controller_pending
                 \<lparr>step_status := Success,
                  message := ''On-chain controller ('' @ onChainController
                               @ '') matches the credential signer.''\<rparr>
          else controller_pending
                 \<lparr>step_status := Warning,
                  message := ''On-chain controller ('' @ onChainController
                               @ '') does not match signer (''
                               @ show_optional (recoveredAddress sigVerification)
                               @ ''). Credential may be valid but issuer DID is not registered or controller has changed.''\<rparr>
      | Inl e \<Rightarrow>
          controller_pending
            \<lparr>step_status := Warning,
             message := ''Could not verify issuer DID controller on-chain. The DID may not be registered.''\<rparr>)"

definition revocation_recorded :: "js_error + bool \<Rightarrow> VerificationStep" where
  "revocation_recorded r =
     (case r of
        Inr revoked \<Rightarrow>
          if revoked
          then revocation_pending
                 \<lparr>step_status := Failure,
                  message := ''This credential has been revoked by the issuer.''\<rparr>
          else revocation_pending
                 \<lparr>step_status := Success,
                  message := ''Credential is not on the revocation list.''\<rparr>
      | Inl e \<Rightarrow>
          revocation_pending
            \<lparr>step_status := Warning,
             message := ''Could not check revocation status: '' @ err_message e\<rparr>)"

text \<open>The order in which the steps of a run are executed.\<close>

definition step_order :: "string list" where
  "step_order = [''Cryptographic Signature'', ''Issuer DID Control'', ''Revocation Status'']"

text \<open>
  A monitor over the events of a run: whenever \<^verbatim>\<open>getController\<close> or \<^verbatim>\<open>isRevoked\<close> is
  called, the last step of the latest published list \<open>cur\<close> is the step of that call, and
  it is pending.
\<close>

fun pending_when_called :: "VerificationStep list \<Rightarrow> event list \<Rightarrow> bool" where
  "pending_when_called cur [] = True"
| "pending_when_called cur (SetSteps as ss # es) = pending_when_called ss es"
| "pending_when_called cur (Called (CallGetController i) # es) =
     (cur \<noteq> [] \<and> name (last cur) = ''Issuer DID Control'' \<and> step_status (last cur) = Pending
      \<and> pending_when_called cur es)"
| "pending_when_called cur (Called (CallIsRevoked h) # es) =
     (cur \<noteq> [] \<and> name (last cur) = ''Revocation Status'' \<and> step_status (last cur) = Pending
      \<and> pending_when_called cur es)"
| "pending_when_called cur (e # es) = pending_when_called cur es"

section \<open>The component around the run\<close>

text \<open>\<^verbatim>\<open>resetState\<close> and \<^verbatim>\<open>handleVcInputChange\<close>, lines 22 to 31.\<close>

definition resetState :: "world \<Rightarrow> world" where
  "resetState w = setVc JNull (setSteps [] (setStatus Idle w))"

definition handleVcInputChange :: "string \<Rightarrow> world \<Rightarrow> world" where
  "handleVcInputChange text w = resetState (setVcInput text w)"

text \<open>The initial values of the \<^verbatim>\<open>useState\<close> hooks, lines 16 to 20.\<close>

definition initial_world :: world where
  "initial_world =
     \<lparr>vcInput = [], vc = JNull, status = Idle, steps = [], isLoading = False,
      heap = [], log = []\<rparr>"

text \<open>
  What can happen to the mounted component: the Verify button is clicked, the input is
  edited (typed or imported from a file), or the promise a suspended run awaits settles.
  The button carries \<^verbatim>\<open>disabled={isLoading || !vcInput}\<close>: a click on the disabled button
  does nothing.
\<close>

datatype ui_action = Click | Edit string | Settle nat

definition button_disabled :: "world \<Rightarrow> bool" where
  "button_disabled w = (isLoading w \<or> vcInput w = [])"

fun in_flight :: "run \<Rightarrow> bool" where
  "in_flight (AwaitController parsedVc sigVerification verificationSteps controllerCheckStep r) = True"
| "in_flight (AwaitRevocation verificationSteps revocationStep r) = True"
| "in_flight Finished = False"
| "in_flight (Crashed e) = False"

text \<open>The component's state and the runs started so far, in the order they started.\<close>

fun fire :: "env \<Rightarrow> world \<times> run list \<Rightarrow> ui_action \<Rightarrow> world \<times> run list" where
  "fire env (w, rs) Click =
     (if button_disabled w then (w, rs)
      else (let (w', r) = runVerification env w in (w', rs @ [r])))"
| "fire env (w, rs) (Edit text) = (handleVcInputChange text w, rs)"
| "fire env (w, rs) (Settle i) =
     (if i < length rs
      then (let (w', r) = resume env (rs ! i) w in (w', rs[i := r]))
      else (w, rs))"

definition ui_trace :: "env \<Rightarrow> ui_action list \<Rightarrow> world \<times> run list" where
  "ui_trace env acts = foldl (fire env) (initial_world, []) acts"

section \<open>A sample credential and sample collaborators\<close>

definition quoted :: "string \<Rightarrow> string" where
  "quoted s = CHR 0x22 # s @ [CHR 0x22]"

definition demo_text :: string where
  "demo_text = ''{'' @ quoted ''issuer'' @ '':'' @ quoted ''did:ex:univ'' @ '',''
                 @ quoted ''proof'' @ '':'' @ quoted ''0xsig'' @ ''}''"

definition demo_vc :: json where
  "demo_vc = JObj [(''issuer'', JStr ''did:ex:univ''), (''proof'', JStr ''0xsig'')]"

definition ascii_lower :: "char \<Rightarrow> char" where
  "ascii_lower c =
     (let n = (of_char c :: nat) in if 65 \<le> n \<and> n \<le> 90 then char_of (n + 32) else c)"

definition demo_env :: env where
  "demo_env =
     \<lparr>JSON_parse = (\<lambda>t. if t = demo_text then Inr demo_vc
                         else if t = ''null'' then Inr JNull
                         else Inl (JsError ''Unexpected token'')),
      verifyVCSignature = (\<lambda>v. if v = demo_vc
                         then Inr \<lparr>valid = True, reason = ''Signature is valid.'',
                                   recoveredAddress = Some ''0xAbC1''\<rparr>
                         else Inr \<lparr>valid = False, reason = ''Missing proof.'',
                                   recoveredAddress = None\<rparr>),
      getController = (\<lambda>i. if i = Some (JStr ''did:ex:univ'') then Inr ''0xaBc1''
                         else Inl (JsError ''DID not registered'')),
      canonicalizeVC = (\<lambda>v. if v = JObj [(''issuer'', JStr ''did:ex:univ'')]
                         then Inr ''issuer=did:ex:univ''
                         else Inl (JsError ''CanonicalizationError'')),
      computeCredentialHash = (\<lambda>c. Inr (''0xh:'' @ c)),
      isRevoked = (\<lambda>h. Inr False),
      toLowerCase = map ascii_lower,
      propertyOfNull = JsError ''Cannot read properties of null'',
      destructureNull = JsError ''Cannot destructure null''\<rparr>"

definition typed :: "string \<Rightarrow> world" where
  "typed text = handleVcInputChange text initial_world"

text \<open>The sample collaborators with one of them changed.\<close>

definition forged_result :: SigVerification where
  "forged_result =
     \<lparr>valid = False, reason = ''Signature does not match the issuer.'',
      recoveredAddress = None\<rparr>"

definition forged_env :: env where
  "forged_env = demo_env\<lparr>verifyVCSignature := (\<lambda>v. Inr forged_result)\<rparr>"

definition revoked_env :: env where
  "revoked_env = demo_env\<lparr>isRevoked := (\<lambda>h. Inr True)\<rparr>"

definition offline_env :: env where
  "offline_env =
     demo_env\<lparr>getController := (\<lambda>i. Inl (JsError ''network error'')),
               isRevoked := (\<lambda>h. Inl (JsError ''network error''))\<rparr>"

definition strict_env :: env where
  "strict_env = demo_env\<lparr>canonicalizeVC := (\<lambda>v. Inl (JsError ''CanonicalizationError''))\<rparr>"

definition throwing_env :: env where
  "throwing_env = demo_env\<lparr>verifyVCSignature := (\<lambda>v. Inl (JsError ''proof is undefined''))\<rparr>"

section \<open>Overlapping runs\<close>



section \<open>Facts about the stages of a run\<close>

lemma deref_nth: "deref w = (!) (heap w)"
  by (rule ext) (simp add: deref_def)

lemmas setters = setIsLoading_def setStatus_def setVc_def setSteps_def called_def
  new_step_def assign_step_def deref_nth

lemma after_revocation_run [simp]: "snd (after_revocation vs a r w) = Finished"
  by (cases r) (simp_all add: after_revocation_def Let_def)

lemma settle_finished: "snd X = Finished \<Longrightarrow> settle env X = X"
  by (cases X) simp

lemma settle_after_revocation [simp]:
  "settle env (after_revocation vs a r w) = after_revocation vs a r w"
  by (simp add: settle_finished)

lemma revocation_stage:
  "settle env (revocation_lookup env v vs a w)
     = after_revocation vs a (revocation_try env v)
         (w\<lparr>log := log w @ map Called (revocation_calls env v)\<rparr>)"
  by (simp add: revocation_lookup_def revocation_try_def revocation_calls_def called_def
        Let_def split: sum.splits)

lemma after_controller_stage:
  "settle env (after_controller env v sv vs a r w)
     = (let w2 = controller_settled env sv vs a r w;
            n = length (heap w2);
            h = heap w2 @ [revocation_pending]
        in after_revocation (vs @ [n]) n (revocation_try env v)
         (w2\<lparr>heap := h, steps := vs @ [n],
              log := log w2 @ SetSteps (vs @ [n]) (map ((!) h) (vs @ [n]))
                       # map Called (revocation_calls env v)\<rparr>))"
  by (simp add: after_controller_def revocation_stage Let_def new_step_def setSteps_def deref_nth)

lemma controller_stage:
  "settle env (settle env (controller_lookup env v sv vs w))
     = (let n = length (heap w);
            h = heap w @ [controller_pending]
        in settle env (after_controller env v sv (vs @ [n]) n (controller_try env v)
         (w\<lparr>heap := h, steps := vs @ [n],
            log := log w @ SetSteps (vs @ [n]) (map ((!) h) (vs @ [n]))
                    # map Called (controller_calls env v)\<rparr>)))"
  by (simp add: controller_lookup_def controller_try_def controller_calls_def Let_def
       new_step_def setSteps_def deref_nth called_def after_controller_stage split: sum.splits)

lemma after_revocation_world:
  assumes "heap w ! a = revocation_pending"
  shows "after_revocation vs a r w =
     (w\<lparr>heap := (heap w)[a := revocation_recorded r], steps := vs,
        status := (if r = Inr True then Revoked else Valid), isLoading := False,
        log := log w @ [SetSteps vs (map ((!) ((heap w)[a := revocation_recorded r])) vs),
                        SetStatus (if r = Inr True then Revoked else Valid),
                        SetIsLoading False]\<rparr>, Finished)"
  using assms
  by (cases w; cases r)
     (simp_all add: after_revocation_def revocation_recorded_def Let_def setSteps_def
        setStatus_def setIsLoading_def assign_step_def deref_nth)

lemma controller_settled_world:
  assumes "heap w ! a = controller_pending"
  shows "controller_settled env sv vs a r w =
     w\<lparr>heap := (heap w)[a := controller_recorded env sv r], steps := vs,
       log := log w @ [SetSteps vs (map ((!) ((heap w)[a := controller_recorded env sv r])) vs)]\<rparr>"
  using assms
  by (cases w; cases r)
     (simp_all add: controller_settled_def controller_recorded_def Let_def setSteps_def
        assign_step_def deref_nth)

lemma signature_stage:
  assumes "JSON_parse env (vcInput w) = Inr v" "verifyVCSignature env v = Inr sv" "valid sv"
  shows "runVerification env w =
     controller_lookup env v sv [length (heap w)]
       (w\<lparr>vc := v, status := Verifying, isLoading := True,
          heap := heap w @ [signature_recorded sv], steps := [length (heap w)],
          log := log w @ [SetIsLoading True, SetStatus Verifying, SetVc v,
                 Called (CallVerifyVCSignature v),
                 SetSteps [length (heap w)] [signature_recorded sv]]\<rparr>)"
  using assms
  by (cases w)
     (simp add: runVerification_def signature_step_def Let_def setSteps_def setStatus_def
        setIsLoading_def setVc_def called_def new_step_def deref_nth)

lemma valid_run:
  assumes "JSON_parse env (vcInput w) = Inr v" "verifyVCSignature env v = Inr sv" "valid sv"
  shows "run_alone env w =
    (w\<lparr>vc := v,
       heap := heap w @ [signature_recorded sv,
                 controller_recorded env sv (controller_try env v),
                 revocation_recorded (revocation_try env v)],
       steps := [length (heap w), Suc (length (heap w)), Suc (Suc (length (heap w)))],
       status := (if revocation_try env v = Inr True then Revoked else Valid),
       isLoading := False,
       log := log w @
         [SetIsLoading True, SetStatus Verifying, SetVc v, Called (CallVerifyVCSignature v),
          SetSteps [length (heap w)] [signature_recorded sv],
          SetSteps [length (heap w), Suc (length (heap w))]
            [signature_recorded sv, controller_pending]]
         @ map Called (controller_calls env v)
         @ [SetSteps [length (heap w), Suc (length (heap w))]
              [signature_recorded sv, controller_recorded env sv (controller_try env v)],
            SetSteps [length (heap w), Suc (length (heap w)), Suc (Suc (length (heap w)))]
              [signature_recorded sv, controller_recorded env sv (controller_try env v),
               revocation_pending]]
         @ map Called (revocation_calls env v)
         @ [SetSteps [length (heap w), Suc (length (heap w)), Suc (Suc (length (heap w)))]
              [signature_recorded sv, controller_recorded env sv (controller_try env v),
               revocation_recorded (revocation_try env v)],
            SetStatus (if revocation_try env v = Inr True then Revoked else Valid),
            SetIsLoading False]\<rparr>, Finished)"
  using assms
  by (cases w)
     (simp add: run_alone_def signature_stage controller_stage after_controller_stage Let_def
        controller_settled_world after_revocation_world nth_append list_update_append)

lemma parse_failed_run:
  assumes "JSON_parse env (vcInput w) = Inl e"
  shows "run_alone env w =
    (w\<lparr>heap := heap w @ [\<lparr>name = ''Parse JSON'', step_status = Failure,
                              message = ''Input is not valid JSON.''\<rparr>],
       steps := [length (heap w)], status := Error, isLoading := False,
       log := log w @
         [SetIsLoading True, SetStatus Verifying, SetStatus Error,
          SetSteps [length (heap w)]
            [\<lparr>name = ''Parse JSON'', step_status = Failure,
              message = ''Input is not valid JSON.''\<rparr>],
          SetIsLoading False]\<rparr>, Finished)"
  using assms
  by (cases w) (simp add: run_alone_def runVerification_def Let_def setters)

lemma crashed_run:
  assumes "JSON_parse env (vcInput w) = Inr v" "verifyVCSignature env v = Inl e"
  shows "run_alone env w =
    (w\<lparr>vc := v, status := Verifying, isLoading := True,
       log := log w @
         [SetIsLoading True, SetStatus Verifying, SetVc v,
          Called (CallVerifyVCSignature v)]\<rparr>, Crashed e)"
  using assms
  by (cases w) (simp add: run_alone_def runVerification_def signature_step_def Let_def setters)

lemma invalid_run:
  assumes "JSON_parse env (vcInput w) = Inr v" "verifyVCSignature env v = Inr sv" "\<not> valid sv"
  shows "run_alone env w =
    (w\<lparr>vc := v, heap := heap w @ [signature_recorded sv],
       steps := [length (heap w)], status := Invalid, isLoading := False,
       log := log w @
         [SetIsLoading True, SetStatus Verifying, SetVc v,
          Called (CallVerifyVCSignature v),
          SetSteps [length (heap w)] [signature_recorded sv],
          SetStatus Invalid, SetIsLoading False]\<rparr>, Finished)"
  using assms
  by (cases w) (simp add: run_alone_def runVerification_def signature_step_def Let_def setters)

lemma calls_of_called [simp]:
  "concat (map ((\<lambda>e. case e of Called c \<Rightarrow> [c] | _ \<Rightarrow> []) \<circ> Called) cs) = cs"
  by (induction cs) simp_all

lemma refs_of_called [simp]:
  "concat (map ((\<lambda>e. case e of SetSteps as ss \<Rightarrow> [as] | _ \<Rightarrow> []) \<circ> Called) cs) = []"
  by (induction cs) simp_all

lemma snapshots_of_called [simp]:
  "concat (map ((\<lambda>e. case e of SetSteps as ss \<Rightarrow> [ss] | _ \<Rightarrow> []) \<circ> Called) cs) = []"
  by (induction cs) simp_all

lemmas observers = run_events_def run_calls_def published_refs_def published_steps_def
  rendered_steps_def deref_nth


lemma withoutProof_getController [simp]:
  "withoutProof (env\<lparr>getController := g\<rparr>) v = withoutProof env v"
  by (cases v) simp_all

lemma revocation_try_getController [simp]:
  "revocation_try (env\<lparr>getController := g\<rparr>) v = revocation_try env v"
  by (simp add: revocation_try_def split: sum.splits)

lemma status_getController:
  "status (fst (run_alone (env\<lparr>getController := g\<rparr>) w)) = status (fst (run_alone env w))"
proof (cases "JSON_parse env (vcInput w)")
  case (Inl e)
  then show ?thesis by (simp add: parse_failed_run)
next
  case parsed: (Inr v)
  show ?thesis
  proof (cases "verifyVCSignature env v")
    case (Inl e)
    with parsed show ?thesis by (simp add: crashed_run)
  next
    case (Inr sv)
    with parsed show ?thesis
      by (cases "valid sv") (simp_all add: valid_run invalid_run)
  qed
qed

text \<open>Two resumptions are enough: an uninterrupted run is never left suspended.\<close>

lemma run_alone_ends: "\<not> in_flight (snd (run_alone env w))"
proof (cases "JSON_parse env (vcInput w)")
  case (Inl e)
  then show ?thesis by (simp add: parse_failed_run)
next
  case parsed: (Inr v)
  show ?thesis
  proof (cases "verifyVCSignature env v")
    case (Inl e)
    with parsed show ?thesis by (simp add: crashed_run)
  next
    case (Inr sv)
    with parsed show ?thesis
      by (cases "valid sv") (simp_all add: valid_run invalid_run)
  qed
qed

lemma valid_run_events:
  assumes "JSON_parse env (vcInput w) = Inr v" "verifyVCSignature env v = Inr sv" "valid sv"
  shows "run_events env w =
         [SetIsLoading True, SetStatus Verifying, SetVc v, Called (CallVerifyVCSignature v),
          SetSteps [length (heap w)] [signature_recorded sv],
          SetSteps [length (heap w), Suc (length (heap w))]
            [signature_recorded sv, controller_pending]]
         @ map Called (controller_calls env v)
         @ [SetSteps [length (heap w), Suc (length (heap w))]
              [signature_recorded sv, controller_recorded env sv (controller_try env v)],
            SetSteps [length (heap w), Suc (length (heap w)), Suc (Suc (length (heap w)))]
              [signature_recorded sv, controller_recorded env sv (controller_try env v),
               revocation_pending]]
         @ map Called (revocation_calls env v)
         @ [SetSteps [length (heap w), Suc (length (heap w)), Suc (Suc (length (heap w)))]
              [signature_recorded sv, controller_recorded env sv (controller_try env v),
               revocation_recorded (revocation_try env v)],
            SetStatus (if revocation_try env v = Inr True then Revoked else Valid),
            SetIsLoading False]"
  using assms by (simp add: valid_run run_events_def)

lemma name_controller_recorded [simp]:
  "name (controller_recorded env sv r) = ''Issuer DID Control''"
  by (simp add: controller_recorded_def controller_pending_def split: sum.splits)

lemma name_revocation_recorded [simp]:
  "name (revocation_recorded r) = ''Revocation Status''"
  by (simp add: revocation_recorded_def revocation_pending_def split: sum.splits)

lemma settled_controller_recorded [simp]:
  "step_status (controller_recorded env sv r) \<noteq> Pending"
  by (simp add: controller_recorded_def controller_pending_def split: sum.splits)

lemma settled_revocation_recorded [simp]:
  "step_status (revocation_recorded r) \<noteq> Pending"
  by (simp add: revocation_recorded_def revocation_pending_def split: sum.splits)

lemma pending_controller_calls:
  "pending_when_called [s, controller_pending] (map Called (controller_calls env v) @ es)
     = pending_when_called [s, controller_pending] es"
  by (simp add: controller_calls_def controller_pending_def split: sum.splits)

lemma pending_revocation_calls:
  "pending_when_called [s, c, revocation_pending] (map Called (revocation_calls env v) @ es)
     = pending_when_called [s, c, revocation_pending] es"
  by (simp add: revocation_calls_def revocation_pending_def split: sum.splits)

lemma after_revocation_loading [simp]: "\<not> in_flight (snd (after_revocation vs a r w))"
  by simp


lemma controller_settled_loading [simp]:
  "isLoading (controller_settled env sv vs a r w) = isLoading w"
  by (simp add: controller_settled_def Let_def setSteps_def assign_step_def split: sum.splits)






lemma handleVcInputChange_loading [simp]:
  "isLoading (handleVcInputChange text w) = isLoading w"
  by (simp add: handleVcInputChange_def resetState_def setVc_def setSteps_def setStatus_def
        setVcInput_def)






section \<open>The sample run\<close>

lemmas typed_input = typed_def handleVcInputChange_def resetState_def setVcInput_def
  setVc_def setSteps_def setStatus_def

lemma demo_parse: "JSON_parse demo_env (vcInput (typed demo_text)) = Inr demo_vc"
  by (simp add: demo_env_def typed_input)

lemma demo_result:
  "verifyVCSignature demo_env demo_vc
     = Inr \<lparr>valid = True, reason = ''Signature is valid.'',
            recoveredAddress = Some ''0xAbC1''\<rparr>"
  by (simp add: demo_env_def)

lemma demo_without_proof:
  "withoutProof env demo_vc = Inr (JObj [(''issuer'', JStr ''did:ex:univ'')])"
  by (simp add: demo_vc_def)

lemma demo_issuer: "get_issuer env demo_vc = Inr (Some (JStr ''did:ex:univ''))"
  by (simp add: demo_vc_def)





text \<open>
  An edit while a run is suspended resets the published state and leaves the run going:
  when its promises settle, its steps and its verdict are shown beside the new input.
\<close>

lemma edit_does_not_cancel:
  "vcInput (fst (ui_trace demo_env [Edit demo_text, Click, Edit ''null'', Settle 0, Settle 0]))
     = ''null''
   \<and> status (fst (ui_trace demo_env [Edit demo_text, Click, Edit ''null'', Settle 0, Settle 0]))
     = Valid
   \<and> map name (rendered_steps
        (fst (ui_trace demo_env [Edit demo_text, Click, Edit ''null'', Settle 0, Settle 0])))
     = step_order"
  by (simp add: ui_trace_def button_disabled_def demo_env_def demo_vc_def
        demo_text_def quoted_def typed_input initial_world_def
        runVerification_def signature_step_def controller_lookup_def after_controller_def
        controller_settled_def revocation_lookup_def after_revocation_def
        setIsLoading_def called_def new_step_def assign_step_def deref_nth Let_def
        signature_recorded_def controller_pending_def revocation_pending_def
        rendered_steps_def step_order_def)

section \<open>The claims\<close>

text \<open>
  C1. When the input parses and the signature verifier returns \<^verbatim>\<open>valid: false\<close>, the run
  ends with status \<^verbatim>\<open>invalid\<close>; the step list holds the one step Cryptographic Signature,
  failed, with the verifier's reason as its message, and it is the only list the run
  publishes; the verifier is the only collaborator called, so neither \<^verbatim>\<open>getController\<close>
  nor \<^verbatim>\<open>isRevoked\<close> is.
\<close>

theorem C1_invalid_signature_stops_run:
  assumes "JSON_parse env (vcInput w) = Inr parsedVc"
    and "verifyVCSignature env parsedVc = Inr sigVerification"
    and "\<not> valid sigVerification"
  shows "snd (run_alone env w) = Finished
    \<and> status (fst (run_alone env w)) = Invalid
    \<and> rendered_steps (fst (run_alone env w))
        = [\<lparr>name = ''Cryptographic Signature'', step_status = Failure,
             message = reason sigVerification\<rparr>]
    \<and> published_steps env w = [rendered_steps (fst (run_alone env w))]
    \<and> run_calls env w = [CallVerifyVCSignature parsedVc]"
  using assms by (simp add: invalid_run observers signature_recorded_def)

theorem C1_witness:
  "JSON_parse forged_env (vcInput (typed demo_text)) = Inr demo_vc
   \<and> verifyVCSignature forged_env demo_vc = Inr forged_result
   \<and> \<not> valid forged_result
   \<and> snd (run_alone forged_env (typed demo_text)) = Finished
   \<and> status (fst (run_alone forged_env (typed demo_text))) = Invalid
   \<and> rendered_steps (fst (run_alone forged_env (typed demo_text)))
       = [\<lparr>name = ''Cryptographic Signature'', step_status = Failure,
            message = ''Signature does not match the issuer.''\<rparr>]
   \<and> run_calls forged_env (typed demo_text) = [CallVerifyVCSignature demo_vc]"
proof -
  have p: "JSON_parse forged_env (vcInput (typed demo_text)) = Inr demo_vc"
    by (simp add: forged_env_def demo_env_def typed_input)
  have v: "verifyVCSignature forged_env demo_vc = Inr forged_result"
    by (simp add: forged_env_def)
  have n: "\<not> valid forged_result"
    by (simp add: forged_result_def)
  from C1_invalid_signature_stops_run [OF p v n] p v n show ?thesis
    by (simp add: forged_result_def)
qed

text \<open>
  C2. When the signature is valid and the revocation lookup is made and \<^verbatim>\<open>isRevoked\<close>
  returns \<^verbatim>\<open>true\<close>, the run ends with status \<^verbatim>\<open>revoked\<close>, whatever the controller
  check gave (nothing is assumed about it). The last step, in the rendered list and in
  the last list published, is Revocation Status, failed, and its message contains the
  word revoked.
\<close>

theorem C2_revoked_is_terminal:
  assumes "JSON_parse env (vcInput w) = Inr parsedVc"
    and "verifyVCSignature env parsedVc = Inr sigVerification"
    and "valid sigVerification"
    and "withoutProof env parsedVc = Inr vcWithoutProof"
    and "canonicalizeVC env vcWithoutProof = Inr canonicalVC"
    and "computeCredentialHash env canonicalVC = Inr hash"
    and "isRevoked env hash = Inr True"
  shows "snd (run_alone env w) = Finished
    \<and> status (fst (run_alone env w)) = Revoked
    \<and> last (rendered_steps (fst (run_alone env w)))
        = \<lparr>name = ''Revocation Status'', step_status = Failure,
            message = ''This credential has been revoked by the issuer.''\<rparr>
    \<and> last (final_snapshot env w) = last (rendered_steps (fst (run_alone env w)))
    \<and> sublist ''revoked'' (message (last (rendered_steps (fst (run_alone env w)))))"
proof -
  have r: "revocation_try env parsedVc = Inr True"
    using assms by (simp add: revocation_try_def)
  have s: "sublist ''revoked'' (''This credential has been '' @ ''revoked'' @ '' by the issuer.'')"
    by (rule sublist_appendI)
  show ?thesis
    using assms(1-3) r s
    by (simp add: valid_run observers final_snapshot_def revocation_recorded_def
          revocation_pending_def nth_append)
qed

theorem C2_witness:
  "JSON_parse revoked_env (vcInput (typed demo_text)) = Inr demo_vc
   \<and> isRevoked revoked_env ''0xh:issuer=did:ex:univ'' = Inr True
   \<and> snd (run_alone revoked_env (typed demo_text)) = Finished
   \<and> status (fst (run_alone revoked_env (typed demo_text))) = Revoked
   \<and> last (rendered_steps (fst (run_alone revoked_env (typed demo_text))))
       = \<lparr>name = ''Revocation Status'', step_status = Failure,
           message = ''This credential has been revoked by the issuer.''\<rparr>"
proof -
  have p: "JSON_parse revoked_env (vcInput (typed demo_text)) = Inr demo_vc"
    by (simp add: revoked_env_def demo_env_def typed_input)
  have v: "verifyVCSignature revoked_env demo_vc
             = Inr \<lparr>valid = True, reason = ''Signature is valid.'',
                    recoveredAddress = Some ''0xAbC1''\<rparr>"
    by (simp add: revoked_env_def demo_env_def)
  have t: "valid \<lparr>valid = True, reason = ''Signature is valid.'',
                   recoveredAddress = Some ''0xAbC1''\<rparr>"
    by simp
  have c: "canonicalizeVC revoked_env (JObj [(''issuer'', JStr ''did:ex:univ'')])
             = Inr ''issuer=did:ex:univ''"
    by (simp add: revoked_env_def demo_env_def)
  have h: "computeCredentialHash revoked_env ''issuer=did:ex:univ''
             = Inr ''0xh:issuer=did:ex:univ''"
    by (simp add: revoked_env_def demo_env_def)
  have r: "isRevoked revoked_env ''0xh:issuer=did:ex:univ'' = Inr True"
    by (simp add: revoked_env_def)
  from C2_revoked_is_terminal [OF p v t demo_without_proof c h r] p r show ?thesis
    by simp
qed

text \<open>
  C3. When the signature is valid and the revocation lookup does not return \<^verbatim>\<open>true\<close>
  (it returns \<^verbatim>\<open>false\<close>, or anything on the way to it or the lookup itself fails), the
  run ends with status \<^verbatim>\<open>valid\<close>. Its three steps are, in order, the signature step
  (success), the controller step (success on a match; warning on a mismatch and on a
  failed resolution) and the revocation step (success, or warning when the lookup failed).
\<close>

theorem C3_advisory_steps_keep_valid:
  assumes "JSON_parse env (vcInput w) = Inr parsedVc"
    and "verifyVCSignature env parsedVc = Inr sigVerification"
    and "valid sigVerification"
    and "revocation_try env parsedVc \<noteq> Inr True"
  shows "snd (run_alone env w) = Finished
    \<and> status (fst (run_alone env w)) = Valid
    \<and> map name (rendered_steps (fst (run_alone env w))) = step_order
    \<and> map step_status (rendered_steps (fst (run_alone env w)))
        = [Success,
           (case controller_try env parsedVc of
              Inl e \<Rightarrow> Warning
            | Inr onChainController \<Rightarrow>
                if Some (toLowerCase env onChainController)
                     = map_option (toLowerCase env) (recoveredAddress sigVerification)
                then Success else Warning),
           (case revocation_try env parsedVc of
              Inl e \<Rightarrow> Warning
            | Inr revoked \<Rightarrow> Success)]"
  using assms
  by (simp add: valid_run observers nth_append step_order_def signature_recorded_def
        controller_recorded_def controller_pending_def revocation_recorded_def
        revocation_pending_def split: sum.splits)

theorem C3_witness:
  "JSON_parse offline_env (vcInput (typed demo_text)) = Inr demo_vc
   \<and> controller_try offline_env demo_vc = Inl (JsError ''network error'')
   \<and> revocation_try offline_env demo_vc = Inl (JsError ''network error'')
   \<and> snd (run_alone offline_env (typed demo_text)) = Finished
   \<and> status (fst (run_alone offline_env (typed demo_text))) = Valid
   \<and> map step_status (rendered_steps (fst (run_alone offline_env (typed demo_text))))
       = [Success, Warning, Warning]"
proof -
  have p: "JSON_parse offline_env (vcInput (typed demo_text)) = Inr demo_vc"
    by (simp add: offline_env_def demo_env_def typed_input)
  have v: "verifyVCSignature offline_env demo_vc
             = Inr \<lparr>valid = True, reason = ''Signature is valid.'',
                    recoveredAddress = Some ''0xAbC1''\<rparr>"
    by (simp add: offline_env_def demo_env_def)
  have t: "valid \<lparr>valid = True, reason = ''Signature is valid.'',
                   recoveredAddress = Some ''0xAbC1''\<rparr>"
    by simp
  have c: "controller_try offline_env demo_vc = Inl (JsError ''network error'')"
    by (simp add: controller_try_def demo_issuer offline_env_def)
  have r: "revocation_try offline_env demo_vc = Inl (JsError ''network error'')"
    by (simp add: revocation_try_def demo_without_proof offline_env_def demo_env_def)
  then have n: "revocation_try offline_env demo_vc \<noteq> Inr True"
    by simp
  from C3_advisory_steps_keep_valid [OF p v t n] p c r show ?thesis
    by simp
qed

text \<open>
  C4. When the input text does not parse, the run ends at once with status \<^verbatim>\<open>error\<close>.
  The step list is the single step Parse JSON, failed, with the message
  ``Input is not valid JSON.''; it is the only list published, and no collaborator is
  called.
\<close>

theorem C4_unparsable_input:
  assumes "JSON_parse env (vcInput w) = Inl e"
  shows "snd (run_alone env w) = Finished
    \<and> status (fst (run_alone env w)) = Error
    \<and> rendered_steps (fst (run_alone env w))
        = [\<lparr>name = ''Parse JSON'', step_status = Failure,
             message = ''Input is not valid JSON.''\<rparr>]
    \<and> published_steps env w = [rendered_steps (fst (run_alone env w))]
    \<and> run_calls env w = []"
  using assms by (simp add: parse_failed_run observers)

theorem C4_witness:
  "JSON_parse demo_env (vcInput (typed ''{not json'')) = Inl (JsError ''Unexpected token'')
   \<and> snd (run_alone demo_env (typed ''{not json'')) = Finished
   \<and> status (fst (run_alone demo_env (typed ''{not json''))) = Error
   \<and> rendered_steps (fst (run_alone demo_env (typed ''{not json'')))
       = [\<lparr>name = ''Parse JSON'', step_status = Failure,
            message = ''Input is not valid JSON.''\<rparr>]
   \<and> run_calls demo_env (typed ''{not json'') = []"
proof -
  have p: "JSON_parse demo_env (vcInput (typed ''{not json''))
             = Inl (JsError ''Unexpected token'')"
    by (simp add: demo_env_def demo_text_def quoted_def typed_input)
  from C4_unparsable_input [OF p] p show ?thesis
    by simp
qed



text \<open>
  C6. When the controller resolution succeeds, the second step of the run is Issuer DID
  Control, and its status is success exactly when the lowercased controller equals the
  lowercased recovered signer address, and warning otherwise (also when no address was
  recovered). The step never decides the outcome: with any other \<^verbatim>\<open>getController\<close> the
  run ends with the same status.
\<close>

theorem C6_controller_comparison:
  assumes "JSON_parse env (vcInput w) = Inr parsedVc"
    and "verifyVCSignature env parsedVc = Inr sigVerification"
    and "valid sigVerification"
    and "get_issuer env parsedVc = Inr issuer"
    and "getController env issuer = Inr onChainController"
  shows "name (rendered_steps (fst (run_alone env w)) ! 1) = ''Issuer DID Control''
    \<and> step_status (rendered_steps (fst (run_alone env w)) ! 1)
        = (if Some (toLowerCase env onChainController)
                = map_option (toLowerCase env) (recoveredAddress sigVerification)
           then Success else Warning)
    \<and> (\<forall>g. status (fst (run_alone (env\<lparr>getController := g\<rparr>) w))
             = status (fst (run_alone env w)))"
proof -
  have c: "controller_try env parsedVc = Inr onChainController"
    using assms by (simp add: controller_try_def)
  show ?thesis
    using assms(1-3) c
    by (simp add: status_getController)
       (simp add: valid_run observers nth_append controller_recorded_def controller_pending_def)
qed

theorem C6_witness:
  "JSON_parse demo_env (vcInput (typed demo_text)) = Inr demo_vc
   \<and> get_issuer demo_env demo_vc = Inr (Some (JStr ''did:ex:univ''))
   \<and> getController demo_env (Some (JStr ''did:ex:univ'')) = Inr ''0xaBc1''
   \<and> toLowerCase demo_env ''0xaBc1'' = toLowerCase demo_env ''0xAbC1''
   \<and> name (rendered_steps (fst (run_alone demo_env (typed demo_text))) ! 1)
       = ''Issuer DID Control''
   \<and> step_status (rendered_steps (fst (run_alone demo_env (typed demo_text))) ! 1) = Success"
proof -
  have t: "valid \<lparr>valid = True, reason = ''Signature is valid.'',
                   recoveredAddress = Some ''0xAbC1''\<rparr>"
    by simp
  have g: "getController demo_env (Some (JStr ''did:ex:univ'')) = Inr ''0xaBc1''"
    by (simp add: demo_env_def)
  have "map ascii_lower ''0xaBc1'' = map ascii_lower ''0xAbC1''"
    by code_simp
  then have l: "toLowerCase demo_env ''0xaBc1'' = toLowerCase demo_env ''0xAbC1''"
    by (simp add: demo_env_def)
  from C6_controller_comparison [OF demo_parse demo_result t demo_issuer g]
    demo_parse demo_issuer [of demo_env] g l
  show ?thesis
    by simp
qed

text \<open>
  C7. For every run: each array of step objects the run publishes is a prefix of the
  arrays it publishes later, so a step once published keeps its position and is updated
  in place; the names in every published list follow the execution order (Cryptographic
  Signature, Issuer DID Control, Revocation Status), the parse failure's single step
  apart; at the moment \<^verbatim>\<open>getController\<close> or \<^verbatim>\<open>isRevoked\<close> is called, the latest
  published list ends with that call's step, pending; and the last list published has no
  pending step left. When the input parses and the signature is valid, the run publishes
  exactly five lists: the signature step; then the same with the pending controller step
  appended; then the same two objects, the controller step settled; then the same with
  the pending revocation step appended; then the same three objects, the revocation step
  settled. The settled steps keep their names and are no longer pending.
\<close>

theorem C7_step_log_grows_in_order:
  "sorted_wrt prefix (published_refs env w)
   \<and> list_all (\<lambda>ss. prefix (map name ss) step_order \<or> map name ss = [''Parse JSON''])
        (published_steps env w)
   \<and> pending_when_called [] (run_events env w)
   \<and> list_all (\<lambda>s. step_status s \<noteq> Pending) (final_snapshot env w)
   \<and> (JSON_parse env (vcInput w) = Inr parsedVc
        \<and> verifyVCSignature env parsedVc = Inr sigVerification
        \<and> valid sigVerification
      \<longrightarrow> published_refs env w
            = [[length (heap w)],
               [length (heap w), Suc (length (heap w))],
               [length (heap w), Suc (length (heap w))],
               [length (heap w), Suc (length (heap w)), Suc (Suc (length (heap w)))],
               [length (heap w), Suc (length (heap w)), Suc (Suc (length (heap w)))]]
        \<and> (\<exists>controllerCheckStep revocationStep.
              published_steps env w
                = [[\<lparr>name = ''Cryptographic Signature'', step_status = Success,
                      message = reason sigVerification\<rparr>],
                   [\<lparr>name = ''Cryptographic Signature'', step_status = Success,
                      message = reason sigVerification\<rparr>,
                    \<lparr>name = ''Issuer DID Control'', step_status = Pending,
                      message = ''Checking if issuer controls DID on-chain...''\<rparr>],
                   [\<lparr>name = ''Cryptographic Signature'', step_status = Success,
                      message = reason sigVerification\<rparr>,
                    controllerCheckStep],
                   [\<lparr>name = ''Cryptographic Signature'', step_status = Success,
                      message = reason sigVerification\<rparr>,
                    controllerCheckStep,
                    \<lparr>name = ''Revocation Status'', step_status = Pending,
                      message = ''Checking on-chain revocation list...''\<rparr>],
                   [\<lparr>name = ''Cryptographic Signature'', step_status = Success,
                      message = reason sigVerification\<rparr>,
                    controllerCheckStep,
                    revocationStep]]
              \<and> controllerCheckStep = controller_recorded env sigVerification
                                         (controller_try env parsedVc)
              \<and> name controllerCheckStep = ''Issuer DID Control''
              \<and> step_status controllerCheckStep \<noteq> Pending
              \<and> revocationStep = revocation_recorded (revocation_try env parsedVc)
              \<and> name revocationStep = ''Revocation Status''
              \<and> step_status revocationStep \<noteq> Pending))"
proof (cases "JSON_parse env (vcInput w)")
  case (Inl e)
  then show ?thesis
    by (simp add: parse_failed_run observers final_snapshot_def)
next
  case parsed: (Inr v)
  show ?thesis
  proof (cases "verifyVCSignature env v")
    case (Inl e)
    with parsed show ?thesis
      by (auto simp add: crashed_run observers final_snapshot_def)
  next
    case verified: (Inr sv)
    show ?thesis
    proof (cases "valid sv")
      case False
      with parsed verified show ?thesis
        by (auto simp add: invalid_run observers final_snapshot_def signature_recorded_def
              step_order_def)
    next
      case True
      note ev = valid_run_events [OF parsed verified True]
      have refs: "sorted_wrt prefix (published_refs env w)"
        by (simp add: published_refs_def ev)
      have names: "list_all (\<lambda>ss. prefix (map name ss) step_order \<or> map name ss = [''Parse JSON''])
          (published_steps env w)"
        by (simp add: published_steps_def ev step_order_def signature_recorded_def
              controller_pending_def revocation_pending_def)
      have pend: "pending_when_called [] (run_events env w)"
        by (simp add: ev pending_controller_calls pending_revocation_calls)
      have fin: "list_all (\<lambda>s. step_status s \<noteq> Pending) (final_snapshot env w)"
        using True by (simp add: final_snapshot_def published_steps_def ev signature_recorded_def)
      have lists: "published_refs env w
            = [[length (heap w)],
               [length (heap w), Suc (length (heap w))],
               [length (heap w), Suc (length (heap w))],
               [length (heap w), Suc (length (heap w)), Suc (Suc (length (heap w)))],
               [length (heap w), Suc (length (heap w)), Suc (Suc (length (heap w)))]]"
        by (simp add: published_refs_def ev)
      have snaps: "published_steps env w
            = [[signature_recorded sv],
               [signature_recorded sv, controller_pending],
               [signature_recorded sv, controller_recorded env sv (controller_try env v)],
               [signature_recorded sv, controller_recorded env sv (controller_try env v),
                revocation_pending],
               [signature_recorded sv, controller_recorded env sv (controller_try env v),
                revocation_recorded (revocation_try env v)]]"
        by (simp add: published_steps_def ev)
      have sig: "signature_recorded sv
            = \<lparr>name = ''Cryptographic Signature'', step_status = Success,
                message = reason sv\<rparr>"
        using True by (simp add: signature_recorded_def)
      have same: "parsedVc = v \<and> sigVerification = sv"
        if "JSON_parse env (vcInput w) = Inr parsedVc"
          and "verifyVCSignature env parsedVc = Inr sigVerification"
        using that parsed verified by simp
      have shape: "published_steps env w
            = [[\<lparr>name = ''Cryptographic Signature'', step_status = Success,
                  message = reason sv\<rparr>],
               [\<lparr>name = ''Cryptographic Signature'', step_status = Success,
                  message = reason sv\<rparr>,
                \<lparr>name = ''Issuer DID Control'', step_status = Pending,
                  message = ''Checking if issuer controls DID on-chain...''\<rparr>],
               [\<lparr>name = ''Cryptographic Signature'', step_status = Success,
                  message = reason sv\<rparr>,
                controller_recorded env sv (controller_try env v)],
               [\<lparr>name = ''Cryptographic Signature'', step_status = Success,
                  message = reason sv\<rparr>,
                controller_recorded env sv (controller_try env v),
                \<lparr>name = ''Revocation Status'', step_status = Pending,
                  message = ''Checking on-chain revocation list...''\<rparr>],
               [\<lparr>name = ''Cryptographic Signature'', step_status = Success,
                  message = reason sv\<rparr>,
                controller_recorded env sv (controller_try env v),
                revocation_recorded (revocation_try env v)]]"
        unfolding snaps sig controller_pending_def revocation_pending_def ..
      have fifth:
        "(JSON_parse env (vcInput w) = Inr parsedVc
        \<and> verifyVCSignature env parsedVc = Inr sigVerification
        \<and> valid sigVerification
      \<longrightarrow> published_refs env w
            = [[length (heap w)],
               [length (heap w), Suc (length (heap w))],
               [length (heap w), Suc (length (heap w))],
               [length (heap w), Suc (length (heap w)), Suc (Suc (length (heap w)))],
               [length (heap w), Suc (length (heap w)), Suc (Suc (length (heap w)))]]
        \<and> (\<exists>controllerCheckStep revocationStep.
              published_steps env w
                = [[\<lparr>name = ''Cryptographic Signature'', step_status = Success,
                      message = reason sigVerification\<rparr>],
                   [\<lparr>name = ''Cryptographic Signature'', step_status = Success,
                      message = reason sigVerification\<rparr>,
                    \<lparr>name = ''Issuer DID Control'', step_status = Pending,
                      message = ''Checking if issuer controls DID on-chain...''\<rparr>],
                   [\<lparr>name = ''Cryptographic Signature'', step_status = Success,
                      message = reason sigVerification\<rparr>,
                    controllerCheckStep],
                   [\<lparr>name = ''Cryptographic Signature'', step_status = Success,
                      message = reason sigVerification\<rparr>,
                    controllerCheckStep,
                    \<lparr>name = ''Revocation Status'', step_status = Pending,
                      message = ''Checking on-chain revocation list...''\<rparr>],
                   [\<lparr>name = ''Cryptographic Signature'', step_status = Success,
                      message = reason sigVerification\<rparr>,
                    controllerCheckStep,
                    revocationStep]]
              \<and> controllerCheckStep = controller_recorded env sigVerification
                                         (controller_try env parsedVc)
              \<and> name controllerCheckStep = ''Issuer DID Control''
              \<and> step_status controllerCheckStep \<noteq> Pending
              \<and> revocationStep = revocation_recorded (revocation_try env parsedVc)
              \<and> name revocationStep = ''Revocation Status''
              \<and> step_status revocationStep \<noteq> Pending))"
      proof (intro impI)
        assume "JSON_parse env (vcInput w) = Inr parsedVc
          \<and> verifyVCSignature env parsedVc = Inr sigVerification
          \<and> valid sigVerification"
        with same have eq: "parsedVc = v" "sigVerification = sv"
          by simp_all
        show "published_refs env w
            = [[length (heap w)],
               [length (heap w), Suc (length (heap w))],
               [length (heap w), Suc (length (heap w))],
               [length (heap w), Suc (length (heap w)), Suc (Suc (length (heap w)))],
               [length (heap w), Suc (length (heap w)), Suc (Suc (length (heap w)))]]
         \<and> (\<exists>controllerCheckStep revocationStep.
              published_steps env w
                = [[\<lparr>name = ''Cryptographic Signature'', step_status = Success,
                      message = reason sigVerification\<rparr>],
                   [\<lparr>name = ''Cryptographic Signature'', step_status = Success,
                      message = reason sigVerification\<rparr>,
                    \<lparr>name = ''Issuer DID Control'', step_status = Pending,
                      message = ''Checking if issuer controls DID on-chain...''\<rparr>],
                   [\<lparr>name = ''Cryptographic Signature'', step_status = Success,
                      message = reason sigVerification\<rparr>,
                    controllerCheckStep],
                   [\<lparr>name = ''Cryptographic Signature'', step_status = Success,
                      message = reason sigVerification\<rparr>,
                    controllerCheckStep,
                    \<lparr>name = ''Revocation Status'', step_status = Pending,
                      message = ''Checking on-chain revocation list...''\<rparr>],
                   [\<lparr>name = ''Cryptographic Signature'', step_status = Success,
                      message = reason sigVerification\<rparr>,
                    controllerCheckStep,
                    revocationStep]]
              \<and> controllerCheckStep = controller_recorded env sigVerification
                                         (controller_try env parsedVc)
              \<and> name controllerCheckStep = ''Issuer DID Control''
              \<and> step_status controllerCheckStep \<noteq> Pending
              \<and> revocationStep = revocation_recorded (revocation_try env parsedVc)
              \<and> name revocationStep = ''Revocation Status''
              \<and> step_status revocationStep \<noteq> Pending)"
          unfolding eq lists shape by simp
      qed
      from refs names pend fin fifth
      show ?thesis
        by (intro conjI) assumption+
    qed
  qed
qed

theorem C7_witness:
  "JSON_parse demo_env (vcInput (typed demo_text)) = Inr demo_vc
   \<and> published_refs demo_env (typed demo_text)
       = [[0], [0, 1], [0, 1], [0, 1, 2], [0, 1, 2]]
   \<and> map (map name) (published_steps demo_env (typed demo_text))
       = [[''Cryptographic Signature''],
          [''Cryptographic Signature'', ''Issuer DID Control''],
          [''Cryptographic Signature'', ''Issuer DID Control''],
          [''Cryptographic Signature'', ''Issuer DID Control'', ''Revocation Status''],
          [''Cryptographic Signature'', ''Issuer DID Control'', ''Revocation Status'']]
   \<and> step_status (published_steps demo_env (typed demo_text) ! 1 ! 1) = Pending
   \<and> step_status (published_steps demo_env (typed demo_text) ! 2 ! 1) \<noteq> Pending
   \<and> step_status (published_steps demo_env (typed demo_text) ! 3 ! 2) = Pending
   \<and> step_status (published_steps demo_env (typed demo_text) ! 4 ! 2) \<noteq> Pending"
proof -
  have t: "valid \<lparr>valid = True, reason = ''Signature is valid.'',
                   recoveredAddress = Some ''0xAbC1''\<rparr>"
    by simp
  have h: "length (heap (typed demo_text)) = 0"
    by (simp add: typed_input initial_world_def)
  from C7_step_log_grows_in_order
         [of demo_env "typed demo_text" demo_vc
             "\<lparr>valid = True, reason = ''Signature is valid.'',
               recoveredAddress = Some ''0xAbC1''\<rparr>"]
       demo_parse demo_result t h
  show ?thesis
    by auto
qed



text \<open>
  C9. With a valid signature, when \<^verbatim>\<open>canonicalizeVC\<close> or \<^verbatim>\<open>computeCredentialHash\<close>
  throws \<open>e\<close>, or the \<^verbatim>\<open>isRevoked\<close> promise is rejected with \<open>e\<close>, the result is the
  same in the three cases: the run ends with status \<^verbatim>\<open>valid\<close>, its steps are the three
  steps in order, and the last one is Revocation Status with status warning and the
  message ``Could not check revocation status: '' followed by the message of \<open>e\<close>.
\<close>

theorem C9_uncanonical_is_warning:
  assumes "JSON_parse env (vcInput w) = Inr parsedVc"
    and "verifyVCSignature env parsedVc = Inr sigVerification"
    and "valid sigVerification"
    and "withoutProof env parsedVc = Inr vcWithoutProof"
    and "canonicalizeVC env vcWithoutProof = Inl e
         \<or> (canonicalizeVC env vcWithoutProof = Inr canonicalVC
            \<and> (computeCredentialHash env canonicalVC = Inl e
               \<or> (computeCredentialHash env canonicalVC = Inr hash
                  \<and> isRevoked env hash = Inl e)))"
  shows "snd (run_alone env w) = Finished
    \<and> status (fst (run_alone env w)) = Valid
    \<and> map name (rendered_steps (fst (run_alone env w))) = step_order
    \<and> last (rendered_steps (fst (run_alone env w)))
        = \<lparr>name = ''Revocation Status'', step_status = Warning,
            message = ''Could not check revocation status: '' @ err_message e\<rparr>"
proof -
  have r: "revocation_try env parsedVc = Inl e"
    using assms(4,5) by (auto simp add: revocation_try_def)
  show ?thesis
    using assms(1-3) r
    by (simp add: valid_run observers nth_append step_order_def signature_recorded_def
        controller_recorded_def controller_pending_def revocation_recorded_def
        revocation_pending_def split: sum.splits)
qed

theorem C9_witness:
  "JSON_parse strict_env (vcInput (typed demo_text)) = Inr demo_vc
   \<and> canonicalizeVC strict_env (JObj [(''issuer'', JStr ''did:ex:univ'')])
       = Inl (JsError ''CanonicalizationError'')
   \<and> snd (run_alone strict_env (typed demo_text)) = Finished
   \<and> status (fst (run_alone strict_env (typed demo_text))) = Valid
   \<and> last (rendered_steps (fst (run_alone strict_env (typed demo_text))))
       = \<lparr>name = ''Revocation Status'', step_status = Warning,
           message = ''Could not check revocation status: CanonicalizationError''\<rparr>"
proof -
  have p: "JSON_parse strict_env (vcInput (typed demo_text)) = Inr demo_vc"
    by (simp add: strict_env_def demo_env_def typed_input)
  have v: "verifyVCSignature strict_env demo_vc
             = Inr \<lparr>valid = True, reason = ''Signature is valid.'',
                    recoveredAddress = Some ''0xAbC1''\<rparr>"
    by (simp add: strict_env_def demo_env_def)
  have t: "valid \<lparr>valid = True, reason = ''Signature is valid.'',
                   recoveredAddress = Some ''0xAbC1''\<rparr>"
    by simp
  have c: "canonicalizeVC strict_env (JObj [(''issuer'', JStr ''did:ex:univ'')])
             = Inl (JsError ''CanonicalizationError'')"
    by (simp add: strict_env_def)
  then have d: "canonicalizeVC strict_env (JObj [(''issuer'', JStr ''did:ex:univ'')])
             = Inl (JsError ''CanonicalizationError'')
         \<or> (canonicalizeVC strict_env (JObj [(''issuer'', JStr ''did:ex:univ'')]) = Inr []
            \<and> (computeCredentialHash strict_env [] = Inl (JsError ''CanonicalizationError'')
               \<or> (computeCredentialHash strict_env [] = Inr []
                  \<and> isRevoked strict_env [] = Inl (JsError ''CanonicalizationError''))))"
    by simp
  from C9_uncanonical_is_warning [OF p v t demo_without_proof d] p c show ?thesis
    by simp
qed

text \<open>
  C10. The call of \<^verbatim>\<open>verifyVCSignature\<close> is not guarded: when it throws \<open>e\<close> on the
  parsed credential, the run ends with \<open>e\<close> uncaught. All it did before is set
  \<^verbatim>\<open>isLoading\<close>, the status \<^verbatim>\<open>verifying\<close> and the parsed credential, and call the
  verifier: no step list is published and no step object is made, the published steps
  are those from before the run, the status stays \<^verbatim>\<open>verifying\<close> and \<^verbatim>\<open>isLoading\<close>
  stays set.
\<close>

theorem C10_verifier_exception_escapes:
  assumes "JSON_parse env (vcInput w) = Inr parsedVc"
    and "verifyVCSignature env parsedVc = Inl e"
  shows "snd (run_alone env w) = Crashed e
    \<and> status (fst (run_alone env w)) = Verifying
    \<and> isLoading (fst (run_alone env w))
    \<and> steps (fst (run_alone env w)) = steps w
    \<and> heap (fst (run_alone env w)) = heap w
    \<and> run_events env w
        = [SetIsLoading True, SetStatus Verifying, SetVc parsedVc,
           Called (CallVerifyVCSignature parsedVc)]"
  using assms by (simp add: crashed_run observers)

theorem C10_witness:
  "JSON_parse throwing_env (vcInput (typed demo_text)) = Inr demo_vc
   \<and> verifyVCSignature throwing_env demo_vc = Inl (JsError ''proof is undefined'')
   \<and> snd (run_alone throwing_env (typed demo_text)) = Crashed (JsError ''proof is undefined'')
   \<and> status (fst (run_alone throwing_env (typed demo_text))) = Verifying
   \<and> isLoading (fst (run_alone throwing_env (typed demo_text)))
   \<and> rendered_steps (fst (run_alone throwing_env (typed demo_text))) = []"
proof -
  have p: "JSON_parse throwing_env (vcInput (typed demo_text)) = Inr demo_vc"
    by (simp add: throwing_env_def demo_env_def typed_input)
  have v: "verifyVCSignature throwing_env demo_vc = Inl (JsError ''proof is undefined'')"
    by (simp add: throwing_env_def)
  from C10_verifier_exception_escapes [OF p v] p v show ?thesis
    by (simp add: rendered_steps_def typed_input)
qed

end
